theory Spec2Isabelle
  imports Main
begin

section \<open>Strings and numbers of the host language\<close>

text \<open>
  A string is a list of UTF-16 code units; the model keeps the code units below 256
  (Latin-1), one \<^typ>\<open>char\<close> each, which covers every character the normalising
  expressions of the program name explicitly.  A \<open>number\<close> that the program only ever
  computes from integers is an \<^typ>\<open>int\<close>: scores are sums of at most six base stats,
  far inside the range where the host's numbers are exact integers.  The one place where
  \<open>NaN\<close> can arise is \<open>parseInt\<close>, hence the type \<open>number\<close> below for what is read back
  from storage.
\<close>

datatype number = NaN | Fin int

definition code_unit :: "char \<Rightarrow> nat" where
  "code_unit c = of_char c"

definition is_digit :: "char \<Rightarrow> bool" where
  "is_digit c \<longleftrightarrow> 48 \<le> code_unit c \<and> code_unit c \<le> 57"

definition is_lower :: "char \<Rightarrow> bool" where
  "is_lower c \<longleftrightarrow> 97 \<le> code_unit c \<and> code_unit c \<le> 122"

text \<open>White space as \<open>\s\<close> and \<open>parseInt\<close> see it: TAB, LF, VT, FF, CR, SP, NBSP.\<close>

definition is_space :: "char \<Rightarrow> bool" where
  "is_space c \<longleftrightarrow> code_unit c \<in> {9, 10, 11, 12, 13, 32, 160}"

definition digit_char :: "nat \<Rightarrow> char" where
  "digit_char d = char_of (48 + d)"

text \<open>The value of a character as a digit of the given radix (10 or 16).\<close>

definition digit_value :: "nat \<Rightarrow> char \<Rightarrow> nat option" where
  "digit_value radix c =
     (let u = code_unit c in
      if 48 \<le> u \<and> u \<le> 57 then Some (u - 48)
      else if radix = 16 \<and> 97 \<le> u \<and> u \<le> 102 then Some (u - 87)
      else if radix = 16 \<and> 65 \<le> u \<and> u \<le> 70 then Some (u - 55)
      else None)"

definition radix_value :: "nat \<Rightarrow> string \<Rightarrow> nat" where
  "radix_value radix z =
     foldl (\<lambda>acc c. acc * radix + (case digit_value radix c of Some d \<Rightarrow> d | None \<Rightarrow> 0)) 0 z"

text \<open>
  \<open>parseInt(s)\<close> with no radix argument: skip leading white space, read an optional
  sign, switch to radix 16 after a \<open>0x\<close>/\<open>0X\<close> prefix, take the longest run of digits
  and return \<open>NaN\<close> when that run is empty.
\<close>

definition parseInt :: "string \<Rightarrow> number" where
  "parseInt s =
     (let t = dropWhile is_space s;
          negative = (t \<noteq> [] \<and> hd t = CHR ''-'');
          u = (if t \<noteq> [] \<and> (hd t = CHR ''-'' \<or> hd t = CHR ''+'') then tl t else t);
          hex = (take 2 u = ''0x'' \<or> take 2 u = ''0X'');
          radix = (if hex then 16 else 10);
          v = (if hex then drop 2 u else u);
          z = takeWhile (\<lambda>c. digit_value radix c \<noteq> None) v
      in if z = [] then NaN
         else Fin ((if negative then - 1 else 1) * int (radix_value radix z)))"

text \<open>\<open>n.toString()\<close> for an integer-valued number: its decimal digits, with a sign (the
  host prints integers this way up to 21 digits).\<close>

fun dec_digits :: "nat \<Rightarrow> string" where
  "dec_digits n =
     (if n < 10 then [digit_char n] else dec_digits (n div 10) @ [digit_char (n mod 10)])"

declare dec_digits.simps [simp del]

definition number_toString :: "number \<Rightarrow> string" where
  "number_toString x =
     (case x of
        NaN \<Rightarrow> ''NaN''
      | Fin i \<Rightarrow> (if i < 0 then CHR ''-'' # dec_digits (nat (- i)) else dec_digits (nat i)))"

section \<open>High-score persistence\<close>

datatype TeamMode = visible | hidden

definition TEAM_SIZE :: nat where
  "TEAM_SIZE = 6"

definition DEFAULT_TEAM_MODE :: TeamMode where
  "DEFAULT_TEAM_MODE = visible"

definition STORAGE_HIGH_SCORE_KEY_PREFIX :: string where
  "STORAGE_HIGH_SCORE_KEY_PREFIX = ''highScore_''"

text \<open>The string a mode is at run time.\<close>

fun mode_string :: "TeamMode \<Rightarrow> string" where
  "mode_string visible = ''visible''"
| "mode_string hidden = ''hidden''"

text \<open>\<open>localStorage\<close>: \<open>getItem\<close> is application, \<open>null\<close> is \<open>None\<close>.\<close>

type_synonym storage = "string \<rightharpoonup> string"

definition getHighScoreKey :: "TeamMode \<Rightarrow> string" where
  "getHighScoreKey m = STORAGE_HIGH_SCORE_KEY_PREFIX @ mode_string m"

definition loadHighScore :: "TeamMode \<Rightarrow> storage \<Rightarrow> number" where
  "loadHighScore m ls =
     (case ls (getHighScoreKey m) of
        None \<Rightarrow> Fin 0
      | Some stored \<Rightarrow> (if stored \<noteq> [] then parseInt stored else Fin 0))"

definition saveHighScore :: "TeamMode \<Rightarrow> number \<Rightarrow> storage \<Rightarrow> storage" where
  "saveHighScore m score ls = ls(getHighScoreKey m \<mapsto> number_toString score)"

section \<open>Form names and the lookup identifier\<close>

text \<open>\<open>s.toLowerCase()\<close> on Latin-1: \<open>A\<close>--\<open>Z\<close> and the accented capitals (all of
  \<open>U+00C0\<close>--\<open>U+00DE\<close> but the multiplication sign) move up by 32.\<close>

definition toLowerCase_char :: "char \<Rightarrow> char" where
  "toLowerCase_char c =
     (let u = code_unit c in
      if (65 \<le> u \<and> u \<le> 90) \<or> (192 \<le> u \<and> u \<le> 222 \<and> u \<noteq> 215) then char_of (u + 32) else c)"

definition toLowerCase :: "string \<Rightarrow> string" where
  "toLowerCase s = map toLowerCase_char s"

text \<open>
  The first \<open>replace\<close> of both slugs.  The character class of the source file holds the
  code points \<open>U+00C3\<close>, \<open>U+00A9\<close> and \<open>U+00A8\<close> (its four UTF-8 encoded characters,
  one of them twice); each occurrence becomes an \<open>e\<close>.
\<close>

definition replace_accents :: "string \<Rightarrow> string" where
  "replace_accents s = map (\<lambda>c. if code_unit c \<in> {195, 169, 168} then CHR ''e'' else c) s"

text \<open>\<open>.replace(/[^a-z0-9\s-]/g, '')\<close>\<close>

definition strip_others :: "string \<Rightarrow> string" where
  "strip_others s = filter (\<lambda>c. is_lower c \<or> is_digit c \<or> is_space c \<or> c = CHR ''-'') s"

text \<open>\<open>.replace(/\s+/g, '-')\<close>: every maximal run of white space becomes one hyphen.  The
  flag says whether the character before was white space.\<close>

fun hyphenate :: "bool \<Rightarrow> string \<Rightarrow> string" where
  "hyphenate in_run [] = []"
| "hyphenate in_run (c # cs) =
     (if is_space c then (if in_run then hyphenate True cs else CHR ''-'' # hyphenate True cs)
      else c # hyphenate False cs)"

definition slug :: "string \<Rightarrow> string" where
  "slug s = hyphenate False (strip_others (replace_accents (toLowerCase s)))"

text \<open>\<open>formName.split(' ')[0]\<close>: what stands before the first space character.\<close>

definition first_token :: "string \<Rightarrow> string" where
  "first_token s = takeWhile (\<lambda>c. c \<noteq> CHR '' '') s"

definition baseSlug :: "string \<Rightarrow> string" where
  "baseSlug formName = slug (first_token formName)"

definition formSlug :: "string \<Rightarrow> string" where
  "formSlug formName = slug formName"

text \<open>\<open>s.includes(pat)\<close>\<close>

fun starts_with :: "string \<Rightarrow> string \<Rightarrow> bool" where
  "starts_with s [] = True"
| "starts_with [] (p # ps) = False"
| "starts_with (c # cs) (p # ps) = (c = p \<and> starts_with cs ps)"

fun str_includes :: "string \<Rightarrow> string \<Rightarrow> bool" where
  "str_includes [] pat = (pat = [])"
| "str_includes (c # cs) pat = (starts_with (c # cs) pat \<or> str_includes cs pat)"

text \<open>\<open>pokemonIdentifier: string | number\<close>\<close>

datatype lookup_id = IdNumber int | IdString string

text \<open>The first lines of \<open>fetchPokemonStats\<close>.  An absent form name is \<open>None\<close>; the test
  \<open>if (formName)\<close> also fails for the empty string.\<close>

definition pokemonIdentifier :: "int \<Rightarrow> string option \<Rightarrow> lookup_id" where
  "pokemonIdentifier pokemonId formName =
     (case formName of
        None \<Rightarrow> IdNumber pokemonId
      | Some fn \<Rightarrow>
          if fn = [] then IdNumber pokemonId
          else
            if str_includes (formSlug fn) ''mega-x'' then IdString (baseSlug fn @ ''-mega-x'')
            else if str_includes (formSlug fn) ''mega-y'' then IdString (baseSlug fn @ ''-mega-y'')
            else if str_includes (formSlug fn) ''mega'' then IdString (baseSlug fn @ ''-mega'')
            else if str_includes (formSlug fn) ''gigantamax'' then IdString (baseSlug fn @ ''-gmax'')
            else if str_includes (formSlug fn) ''alola'' then IdString (baseSlug fn @ ''-alola'')
            else if str_includes (formSlug fn) ''galar'' then IdString (baseSlug fn @ ''-galar'')
            else if str_includes (formSlug fn) ''hisui'' then IdString (baseSlug fn @ ''-hisui'')
            else if str_includes (formSlug fn) ''paldea'' then IdString (baseSlug fn @ ''-paldea'')
            else IdString (formSlug fn))"

text \<open>The identifier inside the template literal of the URL.\<close>

fun identifier_string :: "lookup_id \<Rightarrow> string" where
  "identifier_string (IdNumber n) = number_toString (Fin n)"
| "identifier_string (IdString s) = s"

definition stats_url :: "int \<Rightarrow> string option \<Rightarrow> string" where
  "stats_url pokemonId formName =
     ''https://pokeapi.co/api/v2/pokemon/'' @ identifier_string (pokemonIdentifier pokemonId formName)"



section \<open>Candidates and their stats\<close>

text \<open>
  Modelled from the spec: the declaration of the type \<open>CoreStatKey\<close> is not among the
  sources; its six values are those of the specification's \<open>StatKey\<close>, which are also the
  keys the program lists in \<open>coreStatKeys\<close>.
\<close>

datatype CoreStatKey = hp | attack | defense | specialAttack | specialDefense | speed

text \<open>
  Modelled from the spec: the declaration of the type \<open>PokemonStats\<close> is not among the
  sources; a stats object maps a stat key to a number or lacks it (the program reads it with
  \<open>?? 0\<close>) and may carry a sprite URL and a shiny sprite URL.
\<close>

record PokemonStats =
  core :: "CoreStatKey \<rightharpoonup> int"
  spriteUrl :: "string option"
  shinySpriteUrl :: "string option"

text \<open>
  Modelled from the spec: the declaration of the type \<open>GeneratedPokemon\<close> is not among the
  sources; a candidate has an id, a display name and a base name, cosmetic flags of which
  the model keeps \<open>shiny\<close>, the stats attached to it and, once committed, the stat
  selected on it with its value.
\<close>

record GeneratedPokemon =
  pokemon_id :: int
  name :: string
  baseName :: "string option"
  shiny :: bool
  stats :: "PokemonStats option"
  selectedStat :: "CoreStatKey option"
  selectedStatValue :: "int option"

section \<open>The stat provider\<close>

text \<open>
  What \<open>fetch\<close> can do with a URL: reject, or resolve to a response with its \<open>ok\<close> flag
  and a body.  The body is \<open>None\<close> when \<open>response.json()\<close> rejects or yields \<open>null\<close>.
  Otherwise it is read through the accesses the function makes: \<open>data.stats\<close> is \<open>None\<close>
  when it is no array (the call of \<open>forEach\<close> throws); an element of it is \<open>Malformed\<close>
  when it is \<open>null\<close> or has no \<open>stat\<close> object, so that reading \<open>stat.stat.name\<close>
  throws; the four sprite paths are read with \<open>?.\<close> and never throw.
\<close>

datatype stat_entry = Malformed | StatEntry string int

record api_data =
  stats_array :: "stat_entry list option"
  artwork_front_default :: "string option"
  front_default :: "string option"
  artwork_front_shiny :: "string option"
  front_shiny :: "string option"

datatype fetch_outcome = NetworkError | HttpResponse bool "api_data option"

type_synonym network = "string \<Rightarrow> fetch_outcome"

text \<open>What the program does besides changing its state, in the order it does it.\<close>

datatype effect =
    Alert string
  | MarkLoading bool
  | RequestCandidates
  | Fetch string
  | ConsoleError
  | DisplayTeamBuilderUI
  | DisplayPokemonNull
  | CompletionAlert bool

text \<open>\<open>data.stats.forEach(stat => { statsMap[stat.stat.name] = stat.base_stat })\<close>;
  \<open>None\<close> when the callback throws.\<close>

fun forEach_stat :: "stat_entry list \<Rightarrow> (string \<rightharpoonup> int) \<Rightarrow> (string \<rightharpoonup> int) option" where
  "forEach_stat [] statsMap = Some statsMap"
| "forEach_stat (Malformed # rest) statsMap = None"
| "forEach_stat (StatEntry stat_name base_stat # rest) statsMap =
     forEach_stat rest (statsMap(stat_name \<mapsto> base_stat))"

text \<open>\<open>statsMap[k] || 0\<close>\<close>

definition or_zero :: "int option \<Rightarrow> int" where
  "or_zero v = (case v of None \<Rightarrow> 0 | Some n \<Rightarrow> (if n \<noteq> 0 then n else 0))"

text \<open>\<open>a || b\<close> on a string that may be absent: an empty string is falsy too.\<close>

definition or_string :: "string option \<Rightarrow> string \<Rightarrow> string" where
  "or_string a b = (case a of None \<Rightarrow> b | Some u \<Rightarrow> (if u \<noteq> [] then u else b))"

text \<open>The body of the \<open>try\<close> block; \<open>None\<close> when it throws.\<close>

definition fetchPokemonStats_try :: "int \<Rightarrow> string option \<Rightarrow> network \<Rightarrow> PokemonStats option" where
  "fetchPokemonStats_try pokemonId formName net =
     (case net (stats_url pokemonId formName) of
        NetworkError \<Rightarrow> None
      | HttpResponse ok body \<Rightarrow>
          if \<not> ok then None
          else (case body of
                  None \<Rightarrow> None
                | Some data \<Rightarrow>
                    (case stats_array data of
                       None \<Rightarrow> None
                     | Some entries \<Rightarrow>
                         (case forEach_stat entries Map.empty of
                            None \<Rightarrow> None
                          | Some statsMap \<Rightarrow>
                              Some \<lparr> core = [hp \<mapsto> or_zero (statsMap ''hp''),
                                             attack \<mapsto> or_zero (statsMap ''attack''),
                                             defense \<mapsto> or_zero (statsMap ''defense''),
                                             specialAttack \<mapsto> or_zero (statsMap ''special-attack''),
                                             specialDefense \<mapsto> or_zero (statsMap ''special-defense''),
                                             speed \<mapsto> or_zero (statsMap ''speed'')],
                                     spriteUrl =
                                       Some (or_string (artwork_front_default data)
                                               (or_string (front_default data) [])),
                                     shinySpriteUrl =
                                       Some (or_string (artwork_front_shiny data)
                                               (or_string (front_shiny data) [])) \<rparr>))))"

text \<open>The whole function: the \<open>catch\<close> block logs and returns the default stats, which
  have no sprite fields.  The result comes with the effects of the call.\<close>

definition fetchPokemonStats :: "int \<Rightarrow> string option \<Rightarrow> network \<Rightarrow> PokemonStats \<times> effect list" where
  "fetchPokemonStats pokemonId formName net =
     (case fetchPokemonStats_try pokemonId formName net of
        Some result \<Rightarrow> (result, [Fetch (stats_url pokemonId formName)])
      | None \<Rightarrow>
          (\<lparr> core = [hp \<mapsto> 50, attack \<mapsto> 50, defense \<mapsto> 50,
                     specialAttack \<mapsto> 50, specialDefense \<mapsto> 50, speed \<mapsto> 50],
             spriteUrl = None, shinySpriteUrl = None \<rparr>,
           [Fetch (stats_url pokemonId formName), ConsoleError]))"

text \<open>
  The other copy of the file among the sources has the function without form names and
  sprite URLs: the URL ends in the id, and both \<open>return\<close>s give the six stats only.
\<close>

definition fetchPokemonStats_plain_try :: "int \<Rightarrow> network \<Rightarrow> PokemonStats option" where
  "fetchPokemonStats_plain_try pokemonId net =
     (case net (''https://pokeapi.co/api/v2/pokemon/'' @ number_toString (Fin pokemonId)) of
        NetworkError \<Rightarrow> None
      | HttpResponse ok body \<Rightarrow>
          if \<not> ok then None
          else (case body of
                  None \<Rightarrow> None
                | Some data \<Rightarrow>
                    (case stats_array data of
                       None \<Rightarrow> None
                     | Some entries \<Rightarrow>
                         (case forEach_stat entries Map.empty of
                            None \<Rightarrow> None
                          | Some statsMap \<Rightarrow>
                              Some \<lparr> core = [hp \<mapsto> or_zero (statsMap ''hp''),
                                             attack \<mapsto> or_zero (statsMap ''attack''),
                                             defense \<mapsto> or_zero (statsMap ''defense''),
                                             specialAttack \<mapsto> or_zero (statsMap ''special-attack''),
                                             specialDefense \<mapsto> or_zero (statsMap ''special-defense''),
                                             speed \<mapsto> or_zero (statsMap ''speed'')],
                                     spriteUrl = None, shinySpriteUrl = None \<rparr>))))"

definition fetchPokemonStats_plain :: "int \<Rightarrow> network \<Rightarrow> PokemonStats" where
  "fetchPokemonStats_plain pokemonId net =
     (case fetchPokemonStats_plain_try pokemonId net of
        Some result \<Rightarrow> result
      | None \<Rightarrow>
          \<lparr> core = [hp \<mapsto> 50, attack \<mapsto> 50, defense \<mapsto> 50,
                    specialAttack \<mapsto> 50, specialDefense \<mapsto> 50, speed \<mapsto> 50],
            spriteUrl = None, shinySpriteUrl = None \<rparr>)"

text \<open>The failures of the lookup, named: no response, a response that is not \<open>ok\<close>, a
  body that is no JSON object, no \<open>stats\<close> array, an entry without its \<open>stat\<close> object.\<close>

definition lookup_fails :: "fetch_outcome \<Rightarrow> bool" where
  "lookup_fails r =
     (case r of
        NetworkError \<Rightarrow> True
      | HttpResponse ok body \<Rightarrow>
          \<not> ok \<or>
          (case body of
             None \<Rightarrow> True
           | Some data \<Rightarrow>
               (case stats_array data of None \<Rightarrow> True | Some entries \<Rightarrow> Malformed \<in> set entries)))"

section \<open>The team state\<close>

record TeamState =
  currentPokemon :: "GeneratedPokemon option"
  team :: "GeneratedPokemon list"
  currentScore :: int
  highScore :: number
  usedStats :: "CoreStatKey set"
  mode :: TeamMode

text \<open>The state of the page: \<open>teamState\<close>, the store behind \<open>localStorage\<close> and the
  effects so far.\<close>

record World = TeamState +
  localStorage :: storage
  effects :: "effect list"

definition emit :: "effect \<Rightarrow> World \<Rightarrow> World" where
  "emit e w = w\<lparr>effects := effects w @ [e]\<rparr>"

text \<open>The initialiser of \<open>teamState\<close>, run when the page loads.\<close>

definition teamState_init :: "storage \<Rightarrow> World" where
  "teamState_init ls =
     \<lparr> currentPokemon = None, team = [], currentScore = 0,
       highScore = loadHighScore DEFAULT_TEAM_MODE ls, usedStats = {},
       mode = DEFAULT_TEAM_MODE, localStorage = ls, effects = [] \<rparr>"

text \<open>The rendering functions only read the state.\<close>

definition displayTeamBuilderUI :: "World \<Rightarrow> World" where
  "displayTeamBuilderUI w = emit DisplayTeamBuilderUI w"

definition displayPokemon_null :: "World \<Rightarrow> World" where
  "displayPokemon_null w = emit DisplayPokemonNull w"

text \<open>\<open>currentScore > highScore\<close> and \<open>highScore >= currentScore\<close>: a comparison with
  \<open>NaN\<close> is false.\<close>

definition score_gt :: "int \<Rightarrow> number \<Rightarrow> bool" where
  "score_gt c h = (case h of NaN \<Rightarrow> False | Fin n \<Rightarrow> c > n)"


definition showTeamComplete :: "World \<Rightarrow> World" where
  "showTeamComplete w =
     emit (CompletionAlert
             (case highScore w of NaN \<Rightarrow> False | Fin h \<Rightarrow> currentScore w = h \<and> h > 0)) w"

section \<open>The operations\<close>

text \<open>
  What the candidate source does when asked: \<open>getEligiblePokemon\<close> or \<open>chooseRandom\<close>
  throws, or \<open>chooseRandom\<close> returns a list of freshly made candidates.
\<close>

datatype source_outcome = SourceThrows | Generated "GeneratedPokemon list"

text \<open>
  \<open>generateTeamPokemon\<close> from its first \<open>await\<close> on, given what the source and the network
  answer.  Other handlers can run before the answers arrive, so this part is a function
  of the state it resumes in.  The candidate is a fresh object, in no roster yet.
\<close>

definition generateTeamPokemon_resume :: "source_outcome \<Rightarrow> network \<Rightarrow> World \<Rightarrow> World" where
  "generateTeamPokemon_resume src net w =
     (let w1 = (case src of
                  SourceThrows \<Rightarrow> displayPokemon_null (emit ConsoleError w)
                | Generated generatedPokemon \<Rightarrow>
                    (case generatedPokemon of
                       [] \<Rightarrow> displayPokemon_null w
                     | pokemon # others \<Rightarrow>
                         (let formName = (if baseName pokemon \<noteq> Some (name pokemon)
                                          then Some (name pokemon) else None);
                              fetched = fetchPokemonStats (pokemon_id pokemon) formName net
                          in displayTeamBuilderUI
                               (w\<lparr> currentPokemon := Some (pokemon\<lparr>stats := Some (fst fetched)\<rparr>),
                                   effects := effects w @ snd fetched \<rparr>))))
      in emit (MarkLoading False) w1)"

definition generateTeamPokemon :: "source_outcome \<Rightarrow> network \<Rightarrow> World \<Rightarrow> World" where
  "generateTeamPokemon src net w =
     (if length (team w) \<ge> TEAM_SIZE
      then emit (Alert ''Your team is already complete! Start a new team to continue.'') w
      else generateTeamPokemon_resume src net (emit RequestCandidates (emit (MarkLoading True) w)))"

text \<open>\<open>selectStat\<close>, with the answers that the generation it starts at its end will get.\<close>

definition selectStat :: "CoreStatKey \<Rightarrow> source_outcome \<Rightarrow> network \<Rightarrow> World \<Rightarrow> World" where
  "selectStat stat src net w =
     (case currentPokemon w of
        None \<Rightarrow> w
      | Some pokemon \<Rightarrow>
          (case stats pokemon of
             None \<Rightarrow> w
           | Some st \<Rightarrow>
               if stat \<in> usedStats w then emit (Alert ''This stat has already been selected!'') w
               else
                 (let statValue = (case core st stat of None \<Rightarrow> 0 | Some v \<Rightarrow> v);
                      chosen = pokemon\<lparr> selectedStat := Some stat,
                                        selectedStatValue := Some statValue \<rparr>;
                      w1 = w\<lparr> usedStats := insert stat (usedStats w),
                              currentScore := currentScore w + statValue,
                              team := team w @ [chosen] \<rparr>;
                      w2 = (if score_gt (currentScore w1) (highScore w1)
                            then w1\<lparr> highScore := Fin (currentScore w1),
                                     localStorage :=
                                       saveHighScore (mode w1) (Fin (currentScore w1)) (localStorage w1) \<rparr>
                            else w1);
                      w3 = w2\<lparr> currentPokemon := None \<rparr>
                  in if length (team w3) \<ge> TEAM_SIZE
                     then showTeamComplete (displayTeamBuilderUI w3)
                     else generateTeamPokemon src net w3)))"

definition startNewTeam :: "bool \<Rightarrow> World \<Rightarrow> World" where
  "startNewTeam resetHighScore w =
     (let w1 = w\<lparr> team := [], currentScore := 0, currentPokemon := None, usedStats := {} \<rparr>;
          w2 = (if resetHighScore
                then w1\<lparr> highScore := Fin 0,
                         localStorage := saveHighScore (mode w1) (Fin 0) (localStorage w1) \<rparr>
                else w1)
      in displayTeamBuilderUI w2)"

definition setTeamMode :: "TeamMode \<Rightarrow> World \<Rightarrow> World" where
  "setTeamMode m w = (if mode w = m then w else startNewTeam True (w\<lparr> mode := m \<rparr>))"

definition initializeTeamBuilder :: "source_outcome \<Rightarrow> network \<Rightarrow> World \<Rightarrow> World" where
  "initializeTeamBuilder src net w =
     (if length (team w) = 0 \<and> currentPokemon w = None then generateTeamPokemon src net w
      else displayTeamBuilderUI w)"

section \<open>Reachable states\<close>

text \<open>
  The value under a high-score key when the page loads: nothing, or decimal digits, which
  is all that \<open>saveHighScore\<close> writes for a score that is not negative.
\<close>

definition stored_ok :: "string option \<Rightarrow> bool" where
  "stored_ok v = (case v of None \<Rightarrow> True | Some stored \<Rightarrow> stored \<noteq> [] \<and> list_all is_digit stored)"

definition store_ok :: "storage \<Rightarrow> bool" where
  "store_ok ls \<longleftrightarrow> stored_ok (ls (getHighScoreKey visible)) \<and> stored_ok (ls (getHighScoreKey hidden))"

text \<open>
  The states of a browser session: the page loads over such a store, and then the
  handlers run in any order with any answers of the source and the network, the page
  may be loaded again, and a generation may resume late, after other handlers have run.
\<close>

inductive reachable :: "World \<Rightarrow> bool" where
  boot: "store_ok ls \<Longrightarrow> reachable (teamState_init ls)"
| reload: "reachable w \<Longrightarrow> reachable (teamState_init (localStorage w))"
| initialize: "reachable w \<Longrightarrow> reachable (initializeTeamBuilder src net w)"
| generate: "reachable w \<Longrightarrow> reachable (generateTeamPokemon src net w)"
| resume: "reachable w \<Longrightarrow> reachable (generateTeamPokemon_resume src net w)"
| select: "reachable w \<Longrightarrow> reachable (selectStat stat src net w)"
| new_team: "reachable w \<Longrightarrow> reachable (startNewTeam resetHighScore w)"
| set_mode: "reachable w \<Longrightarrow> reachable (setTeamMode m w)"

text \<open>The value a roster member brought to the score.\<close>

definition committed_value :: "GeneratedPokemon \<Rightarrow> int" where
  "committed_value p = (case selectedStatValue p of None \<Rightarrow> 0 | Some v \<Rightarrow> v)"

definition roster_sum :: "World \<Rightarrow> int" where
  "roster_sum w = sum_list (map committed_value (team w))"

text \<open>What holds in every reachable state.\<close>

definition team_invariant :: "World \<Rightarrow> bool" where
  "team_invariant w \<longleftrightarrow>
     store_ok (localStorage w) \<and>
     (case highScore w of NaN \<Rightarrow> False | Fin h \<Rightarrow> 0 \<le> h \<and> currentScore w \<le> h) \<and>
     currentScore w = roster_sum w \<and>
     distinct (map selectedStat (team w)) \<and>
     set (map selectedStat (team w)) = Some ` usedStats w"

section \<open>Sample data\<close>

definition bulbasaur_data :: api_data where
  "bulbasaur_data =
     \<lparr> stats_array = Some [StatEntry ''hp'' 45, StatEntry ''attack'' 49, StatEntry ''defense'' 49,
                           StatEntry ''special-attack'' 65, StatEntry ''special-defense'' 65,
                           StatEntry ''speed'' 45],
       artwork_front_default = Some ''art/1.png'', front_default = Some ''1.png'',
       artwork_front_shiny = None, front_shiny = Some ''shiny/1.png'' \<rparr>"

definition net_up :: network where
  "net_up url = HttpResponse True (Some bulbasaur_data)"

definition net_down :: network where
  "net_down url = NetworkError"

definition net_not_found :: network where
  "net_not_found url = HttpResponse False None"

text \<open>A response whose second stat entry lacks its \<open>stat\<close> object.\<close>

definition net_malformed :: network where
  "net_malformed url =
     HttpResponse True (Some (bulbasaur_data\<lparr> stats_array := Some [StatEntry ''hp'' 45, Malformed] \<rparr>))"

definition bulbasaur :: GeneratedPokemon where
  "bulbasaur =
     \<lparr> pokemon_id = 1, name = ''Bulbasaur'', baseName = Some ''Bulbasaur'', shiny = False,
       stats = None, selectedStat = None, selectedStatValue = None \<rparr>"

definition bulbasaur_stats :: PokemonStats where
  "bulbasaur_stats = fst (fetchPokemonStats 1 None net_up)"

text \<open>A fresh session; the same with a candidate generated; with that candidate committed
  and the next one generated; and with six candidates committed, one for each stat.\<close>

definition w_fresh :: World where
  "w_fresh = teamState_init Map.empty"

definition w_candidate :: World where
  "w_candidate = generateTeamPokemon (Generated [bulbasaur]) net_up w_fresh"

definition w_one :: World where
  "w_one = selectStat specialAttack (Generated [bulbasaur]) net_up w_candidate"

definition w_full :: World where
  "w_full =
     foldl (\<lambda>w stat. selectStat stat (Generated [bulbasaur]) net_up w) w_one
       [hp, attack, defense, specialDefense, speed]"

text \<open>A session that starts over a store with a high score for each mode.\<close>

definition w_stored :: World where
  "w_stored =
     teamState_init (Map.empty(''highScore_visible'' \<mapsto> ''200'', ''highScore_hidden'' \<mapsto> ''300''))"

section \<open>Parsing and printing integers\<close>

lemma code_unit_digit_char: "d < 10 \<Longrightarrow> code_unit (digit_char d) = 48 + d"
  by (simp add: code_unit_def digit_char_def)

lemma digit_value_digit_char: "d < 10 \<Longrightarrow> digit_value 10 (digit_char d) = Some d"
  by (simp add: digit_value_def code_unit_digit_char)

lemma is_digit_digit_char: "d < 10 \<Longrightarrow> is_digit (digit_char d)"
  by (simp add: is_digit_def code_unit_digit_char)

lemma digit_value_dec_iff: "digit_value 10 c \<noteq> None \<longleftrightarrow> is_digit c"
  by (auto simp: digit_value_def is_digit_def Let_def)

lemma is_digit_not_space: "is_digit c \<Longrightarrow> \<not> is_space c"
  by (auto simp: is_digit_def is_space_def)

lemma is_digit_not_sign: "is_digit c \<Longrightarrow> c \<noteq> CHR ''-'' \<and> c \<noteq> CHR ''+'' \<and> c \<noteq> CHR ''x'' \<and> c \<noteq> CHR ''X''"
  by (auto simp: is_digit_def code_unit_def)

lemma dec_digits_nonempty: "dec_digits n \<noteq> []"
  by (subst dec_digits.simps) simp

lemma dec_digits_all_digits: "\<forall>c \<in> set (dec_digits n). is_digit c"
proof (induction n rule: dec_digits.induct)
  case (1 n)
  show ?case
  proof (cases "n < 10")
    case True
    then show ?thesis
      by (subst dec_digits.simps) (simp add: is_digit_digit_char)
  next
    case False
    with 1 show ?thesis
      by (subst dec_digits.simps) (simp add: is_digit_digit_char)
  qed
qed

lemma radix_value_snoc:
  "radix_value r (z @ [c]) = radix_value r z * r + (case digit_value r c of Some d \<Rightarrow> d | None \<Rightarrow> 0)"
  by (simp add: radix_value_def)

lemma radix_value_dec_digits: "radix_value 10 (dec_digits n) = n"
proof (induction n rule: dec_digits.induct)
  case (1 n)
  show ?case
  proof (cases "n < 10")
    case True
    then show ?thesis
      by (subst dec_digits.simps) (simp add: radix_value_def digit_value_digit_char)
  next
    case False
    with 1 have "radix_value 10 (dec_digits (n div 10)) = n div 10" by simp
    with False show ?thesis
      by (subst dec_digits.simps) (simp add: radix_value_snoc digit_value_digit_char)
  qed
qed

lemma parseInt_digits:
  assumes "z \<noteq> []" and "\<forall>c \<in> set z. is_digit c"
  shows "parseInt z = Fin (int (radix_value 10 z))"
    and "parseInt (CHR ''-'' # z) = Fin (- int (radix_value 10 z))"
proof -
  obtain c cs where z: "z = c # cs" using assms(1) by (cases z) auto
  have c: "is_digit c" using assms(2) z by simp
  have nohex: "take 2 z \<noteq> ''0x'' \<and> take 2 z \<noteq> ''0X''"
  proof (cases cs)
    case Nil
    then show ?thesis using z by simp
  next
    case (Cons d ds)
    then have "is_digit d" using assms(2) z by simp
    then show ?thesis using z Cons is_digit_not_sign[of d] by auto
  qed
  have tw: "takeWhile (\<lambda>c. digit_value 10 c \<noteq> None) z = z"
    using assms(2) digit_value_dec_iff by (auto simp del: not_None_eq)
  have dw: "dropWhile is_space z = z"
    using z c is_digit_not_space by simp
  have hd: "hd z \<noteq> CHR ''-''" "hd z \<noteq> CHR ''+''"
    using z c is_digit_not_sign[of c] by auto
  show "parseInt z = Fin (int (radix_value 10 z))"
    unfolding parseInt_def Let_def dw using nohex assms(1) hd
    by (simp del: not_None_eq add: tw)
  have mspace: "\<not> is_space CHR ''-''" by (simp add: is_space_def code_unit_def)
  show "parseInt (CHR ''-'' # z) = Fin (- int (radix_value 10 z))"
    unfolding parseInt_def Let_def using mspace nohex assms(1)
    by (simp del: not_None_eq add: tw)
qed

lemma parseInt_number_toString: "parseInt (number_toString (Fin i)) = Fin i"
  using parseInt_digits[OF dec_digits_nonempty dec_digits_all_digits]
  by (simp add: number_toString_def radix_value_dec_digits)

lemma number_toString_nonempty: "number_toString x \<noteq> []"
  by (cases x) (simp_all add: number_toString_def dec_digits_nonempty)



lemma key_neq: "m \<noteq> m' \<Longrightarrow> getHighScoreKey m \<noteq> getHighScoreKey m'"
  by (cases m; cases m') (simp_all add: getHighScoreKey_def)

lemma loadHighScore_saved: "loadHighScore m (saveHighScore m (Fin i) ls) = Fin i"
  by (simp add: loadHighScore_def saveHighScore_def number_toString_nonempty parseInt_number_toString)


section \<open>Persistence of the high score\<close>






section \<open>The lookup identifier\<close>



section \<open>The fallback of the stat provider\<close>

lemma forEach_stat_None: "forEach_stat entries statsMap = None \<longleftrightarrow> Malformed \<in> set entries"
proof (induction entries arbitrary: statsMap)
  case Nil
  show ?case by simp
next
  case (Cons entry rest)
  show ?case
  proof (cases entry)
    case Malformed
    then show ?thesis by simp
  next
    case (StatEntry stat_name base_stat)
    then show ?thesis by (simp add: Cons.IH)
  qed
qed

lemma fetchPokemonStats_try_None:
  "fetchPokemonStats_try pokemonId formName net = None \<longleftrightarrow>
     lookup_fails (net (stats_url pokemonId formName))"
  by (auto simp: fetchPokemonStats_try_def lookup_fails_def forEach_stat_None [THEN iffD2]
      dest: forEach_stat_None [THEN iffD1] split: fetch_outcome.splits option.splits)

lemma fetchPokemonStats_plain_try_None:
  "fetchPokemonStats_plain_try pokemonId net = None \<longleftrightarrow>
     lookup_fails (net (''https://pokeapi.co/api/v2/pokemon/'' @ number_toString (Fin pokemonId)))"
  by (auto simp: fetchPokemonStats_plain_try_def lookup_fails_def forEach_stat_None [THEN iffD2]
      dest: forEach_stat_None [THEN iffD1] split: fetch_outcome.splits option.splits)

text \<open>
  C6: \<open>fetchPokemonStats\<close> returns for every input, and whenever the lookup fails inside
  (no response, a response that is not \<open>ok\<close>, a malformed body) what it returns is the
  default stats, 50 for each of the six keys, with no sprite URL.  The \<open>try\<close> block throws
  in exactly these cases.  The same holds for the copy of the function without form names.
\<close>

theorem fetchPokemonStats_fallback:
  "(fetchPokemonStats_try pokemonId formName net = None \<longleftrightarrow>
      lookup_fails (net (stats_url pokemonId formName))) \<and>
   (lookup_fails (net (stats_url pokemonId formName)) \<longrightarrow>
      fst (fetchPokemonStats pokemonId formName net) =
        \<lparr> core = [hp \<mapsto> 50, attack \<mapsto> 50, defense \<mapsto> 50,
                   specialAttack \<mapsto> 50, specialDefense \<mapsto> 50, speed \<mapsto> 50],
           spriteUrl = None, shinySpriteUrl = None \<rparr>) \<and>
   (lookup_fails (net (''https://pokeapi.co/api/v2/pokemon/'' @ number_toString (Fin pokemonId))) \<longrightarrow>
      fetchPokemonStats_plain pokemonId net =
        \<lparr> core = [hp \<mapsto> 50, attack \<mapsto> 50, defense \<mapsto> 50,
                   specialAttack \<mapsto> 50, specialDefense \<mapsto> 50, speed \<mapsto> 50],
           spriteUrl = None, shinySpriteUrl = None \<rparr>)"
  using fetchPokemonStats_try_None [of pokemonId formName net]
    fetchPokemonStats_plain_try_None [of pokemonId net]
  by (auto simp: fetchPokemonStats_def fetchPokemonStats_plain_def split: option.splits)

theorem fetchPokemonStats_fallback_witness:
  "lookup_fails (net_down (stats_url 1 None)) \<and>
   lookup_fails (net_not_found (stats_url 1 None)) \<and>
   lookup_fails (net_malformed (stats_url 1 None)) \<and>
   core (fst (fetchPokemonStats 1 None net_down)) speed = Some 50 \<and>
   spriteUrl (fst (fetchPokemonStats 1 None net_not_found)) = None \<and>
   core (fst (fetchPokemonStats 1 None net_malformed)) hp = Some 50 \<and>
   core (fetchPokemonStats_plain 1 net_down) hp = Some 50"
  using fetchPokemonStats_fallback [of 1 None net_down]
    fetchPokemonStats_fallback [of 1 None net_not_found]
    fetchPokemonStats_fallback [of 1 None net_malformed]
  by (simp add: lookup_fails_def net_down_def net_not_found_def net_malformed_def)

section \<open>What the operations change\<close>

lemma resume_fields:
  "team (generateTeamPokemon_resume src net w) = team w"
  "currentScore (generateTeamPokemon_resume src net w) = currentScore w"
  "highScore (generateTeamPokemon_resume src net w) = highScore w"
  "usedStats (generateTeamPokemon_resume src net w) = usedStats w"
  "mode (generateTeamPokemon_resume src net w) = mode w"
  "localStorage (generateTeamPokemon_resume src net w) = localStorage w"
  by (simp_all add: generateTeamPokemon_resume_def Let_def emit_def displayPokemon_null_def
      displayTeamBuilderUI_def split: source_outcome.splits list.splits)

lemma generate_fields:
  "team (generateTeamPokemon src net w) = team w"
  "currentScore (generateTeamPokemon src net w) = currentScore w"
  "highScore (generateTeamPokemon src net w) = highScore w"
  "usedStats (generateTeamPokemon src net w) = usedStats w"
  "mode (generateTeamPokemon src net w) = mode w"
  "localStorage (generateTeamPokemon src net w) = localStorage w"
  by (simp_all add: generateTeamPokemon_def resume_fields emit_def)

lemma initialize_fields:
  "team (initializeTeamBuilder src net w) = team w"
  "currentScore (initializeTeamBuilder src net w) = currentScore w"
  "highScore (initializeTeamBuilder src net w) = highScore w"
  "usedStats (initializeTeamBuilder src net w) = usedStats w"
  "localStorage (initializeTeamBuilder src net w) = localStorage w"
  by (simp_all add: initializeTeamBuilder_def generate_fields displayTeamBuilderUI_def emit_def)

text \<open>What a call of \<open>selectStat\<close> that passes both guards does to the state.\<close>

lemma selectStat_commit:
  fixes src :: source_outcome and net :: network
  assumes "currentPokemon w = Some p" "stats p = Some st" "stat \<notin> usedStats w"
  defines "v \<equiv> (case core st stat of None \<Rightarrow> 0 | Some x \<Rightarrow> x)"
  shows "team (selectStat stat src net w) =
          team w @ [p\<lparr>selectedStat := Some stat, selectedStatValue := Some v\<rparr>]"
    and "currentScore (selectStat stat src net w) = currentScore w + v"
    and "usedStats (selectStat stat src net w) = insert stat (usedStats w)"
    and "mode (selectStat stat src net w) = mode w"
    and "highScore (selectStat stat src net w) =
          (if score_gt (currentScore w + v) (highScore w) then Fin (currentScore w + v)
           else highScore w)"
    and "localStorage (selectStat stat src net w) =
          (if score_gt (currentScore w + v) (highScore w)
           then saveHighScore (mode w) (Fin (currentScore w + v)) (localStorage w)
           else localStorage w)"
  using assms(1-3) unfolding v_def
  by (simp_all add: selectStat_def Let_def generate_fields showTeamComplete_def
      displayTeamBuilderUI_def emit_def)

text \<open>What a call that fails a guard does: nothing but, possibly, an alert.\<close>

lemma selectStat_rejected:
  assumes "currentPokemon w = None \<or> (\<exists>p. currentPokemon w = Some p \<and> stats p = None)
           \<or> stat \<in> usedStats w"
  shows "selectStat stat src net w = w \<or>
         selectStat stat src net w = emit (Alert ''This stat has already been selected!'') w"
  using assms by (auto simp: selectStat_def split: option.splits)

section \<open>The invariant\<close>

lemma team_invariant_fields:
  assumes "team w' = team w" "currentScore w' = currentScore w" "highScore w' = highScore w"
    "usedStats w' = usedStats w" "localStorage w' = localStorage w"
  shows "team_invariant w' = team_invariant w"
  by (simp add: team_invariant_def roster_sum_def assms split: number.splits)

lemma invariant_emit: "team_invariant (emit e w) = team_invariant w"
  by (rule team_invariant_fields) (simp_all add: emit_def)

lemma stored_ok_toString: "0 \<le> n \<Longrightarrow> stored_ok (Some (number_toString (Fin n)))"
  using dec_digits_all_digits [of "nat n"]
  by (simp add: stored_ok_def number_toString_def dec_digits_nonempty list_all_iff)

lemma store_ok_save: "0 \<le> n \<Longrightarrow> store_ok ls \<Longrightarrow> store_ok (saveHighScore m (Fin n) ls)"
  by (cases m) (simp_all add: store_ok_def saveHighScore_def stored_ok_toString key_neq)

lemma loadHighScore_ok:
  assumes "stored_ok (ls (getHighScoreKey m))"
  shows "\<exists>h. 0 \<le> h \<and> loadHighScore m ls = Fin h"
proof (cases "ls (getHighScoreKey m)")
  case None
  then show ?thesis by (simp add: loadHighScore_def)
next
  case (Some stored)
  with assms have "stored \<noteq> []" "\<forall>c \<in> set stored. is_digit c"
    by (simp_all add: stored_ok_def list_all_iff)
  then have "parseInt stored = Fin (int (radix_value 10 stored))"
    by (rule parseInt_digits(1))
  with Some \<open>stored \<noteq> []\<close> show ?thesis by (simp add: loadHighScore_def)
qed

lemma invariant_init: "store_ok ls \<Longrightarrow> team_invariant (teamState_init ls)"
  using loadHighScore_ok [of ls visible]
  by (auto simp: team_invariant_def teamState_init_def roster_sum_def store_ok_def
      DEFAULT_TEAM_MODE_def)

lemma invariant_startNewTeam: "team_invariant w \<Longrightarrow> team_invariant (startNewTeam r w)"
  using store_ok_save [of 0 "localStorage w" "mode w"]
  by (auto simp: team_invariant_def startNewTeam_def Let_def roster_sum_def
      displayTeamBuilderUI_def emit_def split: number.splits)

lemma invariant_setTeamMode:
  assumes "team_invariant w"
  shows "team_invariant (setTeamMode m w)"
proof -
  have "team_invariant (w\<lparr>mode := m\<rparr>) = team_invariant w"
    by (rule team_invariant_fields) simp_all
  with assms show ?thesis
    by (simp add: setTeamMode_def invariant_startNewTeam)
qed

lemma invariant_selectStat:
  assumes inv: "team_invariant w"
  shows "team_invariant (selectStat stat src net w)"
proof (cases "currentPokemon w = None \<or> (\<exists>p. currentPokemon w = Some p \<and> stats p = None)
           \<or> stat \<in> usedStats w")
  case True
  from selectStat_rejected [OF True, of src net] inv show ?thesis
    by (auto simp: invariant_emit)
next
  case False
  then obtain p st where p: "currentPokemon w = Some p" "stats p = Some st" "stat \<notin> usedStats w"
    by auto
  define v where "v = (case core st stat of None \<Rightarrow> 0 | Some x \<Rightarrow> x)"
  note c = selectStat_commit [OF p, of src net, folded v_def]
  from inv obtain h where h: "highScore w = Fin h" "0 \<le> h" "currentScore w \<le> h"
    by (auto simp: team_invariant_def split: number.splits)
  have fresh: "Some stat \<notin> set (map selectedStat (team w))"
    using inv p(3) by (auto simp: team_invariant_def)
  have store: "store_ok (localStorage (selectStat stat src net w))"
    using inv h store_ok_save [of "currentScore w + v" "localStorage w" "mode w"]
    by (auto simp: c team_invariant_def score_gt_def)
  have score: "case highScore (selectStat stat src net w) of NaN \<Rightarrow> False
               | Fin k \<Rightarrow> 0 \<le> k \<and> currentScore (selectStat stat src net w) \<le> k"
    using h by (auto simp: c score_gt_def)
  have sum: "currentScore (selectStat stat src net w) = roster_sum (selectStat stat src net w)"
    using inv by (simp add: c team_invariant_def roster_sum_def committed_value_def)
  have keys: "distinct (map selectedStat (team (selectStat stat src net w)))"
    "set (map selectedStat (team (selectStat stat src net w))) =
       Some ` usedStats (selectStat stat src net w)"
    using inv fresh by (auto simp: c team_invariant_def)
  from store score sum keys show ?thesis
    by (simp add: team_invariant_def)
qed

lemma reachable_invariant: "reachable w \<Longrightarrow> team_invariant w"
proof (induction rule: reachable.induct)
  case (boot ls)
  then show ?case by (rule invariant_init)
next
  case (reload w)
  then have "store_ok (localStorage w)" by (simp add: team_invariant_def)
  then show ?case by (rule invariant_init)
next
  case (initialize w src net)
  then show ?case
    using team_invariant_fields [of "initializeTeamBuilder src net w" w]
    by (simp add: initialize_fields)
next
  case (generate w src net)
  then show ?case
    using team_invariant_fields [of "generateTeamPokemon src net w" w]
    by (simp add: generate_fields)
next
  case (resume w src net)
  then show ?case
    using team_invariant_fields [of "generateTeamPokemon_resume src net w" w]
    by (simp add: resume_fields)
next
  case (select w stat src net)
  then show ?case by (simp add: invariant_selectStat)
next
  case (new_team w r)
  then show ?case by (simp add: invariant_startNewTeam)
next
  case (set_mode w m)
  then show ?case by (simp add: invariant_setTeamMode)
qed

lemma CoreStatKey_univ:
  "(UNIV :: CoreStatKey set) = {hp, attack, defense, specialAttack, specialDefense, speed}"
  using CoreStatKey.exhaust by auto

lemma card_CoreStatKey: "card (UNIV :: CoreStatKey set) = 6"
  by (simp add: CoreStatKey_univ)

lemma finite_CoreStatKey: "finite (A :: CoreStatKey set)"
proof (rule finite_subset)
  show "A \<subseteq> UNIV" by simp
  show "finite (UNIV :: CoreStatKey set)" by (simp add: CoreStatKey_univ)
qed

text \<open>The roster is as long as the set of used stats is large, so it never outgrows the
  six stats there are.\<close>

lemma invariant_roster_size:
  assumes "team_invariant w"
  shows "length (team w) = card (usedStats w)" and "length (team w) \<le> TEAM_SIZE"
proof -
  have d: "distinct (map selectedStat (team w))"
    and k: "set (map selectedStat (team w)) = Some ` usedStats w"
    using assms by (simp_all add: team_invariant_def)
  have "length (team w) = length (map selectedStat (team w))" by simp
  also have "\<dots> = card (set (map selectedStat (team w)))"
    using d by (rule distinct_card [symmetric])
  also have "\<dots> = card (Some ` usedStats w)"
    by (simp only: k)
  also have "\<dots> = card (usedStats w)"
    by (simp add: card_image)
  finally show "length (team w) = card (usedStats w)" .
  moreover have "card (usedStats w) \<le> card (UNIV :: CoreStatKey set)"
    by (rule card_mono) (simp_all add: finite_CoreStatKey)
  ultimately show "length (team w) \<le> TEAM_SIZE"
    by (simp add: card_CoreStatKey TEAM_SIZE_def)
qed

lemma invariant_full_roster:
  assumes "team_invariant w" and "TEAM_SIZE \<le> length (team w)"
  shows "usedStats w = UNIV"
proof -
  have "card (usedStats w) = card (UNIV :: CoreStatKey set)"
    using assms invariant_roster_size [OF assms(1)] by (simp add: card_CoreStatKey TEAM_SIZE_def)
  then show ?thesis
    using card_subset_eq [of UNIV "usedStats w"] by (simp add: finite_CoreStatKey)
qed

section \<open>The sample sessions\<close>

lemma reachable_w_fresh: "reachable w_fresh"
  unfolding w_fresh_def by (rule reachable.boot) (simp add: store_ok_def stored_ok_def)

lemma reachable_w_candidate: "reachable w_candidate"
  unfolding w_candidate_def by (rule reachable.generate) (rule reachable_w_fresh)

lemma reachable_w_one: "reachable w_one"
  unfolding w_one_def by (rule reachable.select) (rule reachable_w_candidate)

lemma reachable_w_full: "reachable w_full"
  unfolding w_full_def foldl.simps by (intro reachable.select reachable_w_one)

lemma w_candidate_pending:
  "currentPokemon w_candidate = Some (bulbasaur\<lparr>stats := Some bulbasaur_stats\<rparr>)"
  by (simp add: w_candidate_def w_fresh_def teamState_init_def generateTeamPokemon_def
      generateTeamPokemon_resume_def TEAM_SIZE_def emit_def displayTeamBuilderUI_def
      bulbasaur_def bulbasaur_stats_def Let_def)

lemma w_candidate_state:
  "specialAttack \<notin> usedStats w_candidate" "currentScore w_candidate = 0"
  "team w_candidate = []" "highScore w_candidate = Fin 0" "mode w_candidate = visible"
  by code_simp+

lemma bulbasaur_specialAttack: "core bulbasaur_stats specialAttack = Some 65"
  by code_simp

section \<open>Switching the mode\<close>

text \<open>
  C5: \<open>setTeamMode(m)\<close> changes nothing when \<open>m\<close> is the current mode; otherwise the mode
  becomes \<open>m\<close>, the roster is emptied, the current score becomes 0, and the high score
  becomes 0 and 0 is written under the key of \<open>m\<close>, whatever was stored there before:
  that value is not loaded.
\<close>

theorem setTeamMode_resets:
  "(mode w = m \<longrightarrow> setTeamMode m w = w) \<and>
   (mode w \<noteq> m \<longrightarrow>
      mode (setTeamMode m w) = m \<and>
      team (setTeamMode m w) = [] \<and>
      currentScore (setTeamMode m w) = 0 \<and>
      currentPokemon (setTeamMode m w) = None \<and>
      usedStats (setTeamMode m w) = {} \<and>
      highScore (setTeamMode m w) = Fin 0 \<and>
      localStorage (setTeamMode m w) = (localStorage w)(getHighScoreKey m \<mapsto> ''0'') \<and>
      loadHighScore m (localStorage (setTeamMode m w)) = Fin 0)"
proof -
  have zero: "number_toString (Fin 0) = ''0''"
    by code_simp
  have "loadHighScore m ((localStorage w)(getHighScoreKey m \<mapsto> ''0'')) = Fin 0"
    using loadHighScore_saved [of m 0 "localStorage w"] by (simp add: saveHighScore_def zero)
  then show ?thesis
    by (simp add: setTeamMode_def startNewTeam_def displayTeamBuilderUI_def emit_def
        saveHighScore_def zero)
qed

theorem setTeamMode_resets_witness:
  "mode w_stored \<noteq> hidden \<and> highScore w_stored = Fin 200 \<and>
   loadHighScore hidden (localStorage w_stored) = Fin 300 \<and>
   mode (setTeamMode hidden w_stored) = hidden \<and>
   highScore (setTeamMode hidden w_stored) = Fin 0 \<and>
   loadHighScore hidden (localStorage (setTeamMode hidden w_stored)) = Fin 0 \<and>
   setTeamMode visible w_stored = w_stored"
proof -
  have m: "mode w_stored = visible"
    by (simp add: w_stored_def teamState_init_def DEFAULT_TEAM_MODE_def)
  have h: "highScore w_stored = Fin 200"
    by code_simp
  have l: "loadHighScore hidden (localStorage w_stored) = Fin 300"
    by code_simp
  from m have ne: "mode w_stored \<noteq> hidden" by simp
  from setTeamMode_resets [of w_stored hidden] ne
  have r: "mode (setTeamMode hidden w_stored) = hidden"
    "highScore (setTeamMode hidden w_stored) = Fin 0"
    "loadHighScore hidden (localStorage (setTeamMode hidden w_stored)) = Fin 0"
    by blast+
  from setTeamMode_resets [of w_stored visible] m
  have "setTeamMode visible w_stored = w_stored" by blast
  with ne h l r show ?thesis by blast
qed

section \<open>Generating a candidate\<close>

text \<open>
  C4: when the roster has \<open>TEAM_SIZE\<close> members or more, \<open>generateTeamPokemon\<close> gives the
  notice that the team is complete and does nothing else: no request, no candidate set,
  no change of the state.  In a reachable state such a roster has exactly six members,
  and neither \<open>selectStat\<close> nor a generation that resumes late changes it; only a new
  team does.
\<close>

theorem generate_when_full:
  "TEAM_SIZE \<le> length (team w) \<Longrightarrow>
     generateTeamPokemon src net w =
       w\<lparr> effects :=
            effects w @ [Alert ''Your team is already complete! Start a new team to continue.''] \<rparr> \<and>
     (reachable w \<longrightarrow>
        length (team w) = TEAM_SIZE \<and>
        team (selectStat stat src' net' w) = team w \<and>
        team (generateTeamPokemon_resume src' net' w) = team w)"
proof -
  assume full: "TEAM_SIZE \<le> length (team w)"
  have "team (selectStat stat src' net' w) = team w" if "reachable w"
  proof -
    from that have inv: "team_invariant w" by (rule reachable_invariant)
    with full have "stat \<in> usedStats w" by (simp add: invariant_full_roster)
    then have "selectStat stat src' net' w = w \<or>
               selectStat stat src' net' w = emit (Alert ''This stat has already been selected!'') w"
      by (intro selectStat_rejected) simp
    then show ?thesis by (auto simp: emit_def)
  qed
  moreover have "length (team w) = TEAM_SIZE" if "reachable w"
    using full invariant_roster_size(2) [OF reachable_invariant [OF that]] by simp
  ultimately show ?thesis
    using full by (simp add: generateTeamPokemon_def emit_def resume_fields)
qed

theorem generate_when_full_witness:
  "reachable w_full \<and> TEAM_SIZE \<le> length (team w_full) \<and>
   team (generateTeamPokemon (Generated [bulbasaur]) net_up w_full) = team w_full \<and>
   currentPokemon (generateTeamPokemon (Generated [bulbasaur]) net_up w_full) =
     currentPokemon w_full \<and>
   team (selectStat hp (Generated [bulbasaur]) net_up w_full) = team w_full"
proof -
  have full: "TEAM_SIZE \<le> length (team w_full)" by code_simp
  show ?thesis
    using reachable_w_full full
      generate_when_full [OF full, of "Generated [bulbasaur]" net_up hp "Generated [bulbasaur]" net_up]
    by simp
qed

text \<open>
  C7, as the program has it: when \<open>generateTeamPokemon\<close> runs on a roster that is not full
  and the source yields no candidate (it throws, or its result is empty), the operation
  signals that there is no candidate and leaves the pending candidate as it was (so none
  is pending afterwards if none was before), and the roster, the scores, the used stats
  and the store are unchanged.
\<close>

theorem generate_no_candidate:
  "length (team w) < TEAM_SIZE \<Longrightarrow> src = SourceThrows \<or> src = Generated [] \<Longrightarrow>
     currentPokemon (generateTeamPokemon src net w) = currentPokemon w \<and>
     team (generateTeamPokemon src net w) = team w \<and>
     currentScore (generateTeamPokemon src net w) = currentScore w \<and>
     highScore (generateTeamPokemon src net w) = highScore w \<and>
     usedStats (generateTeamPokemon src net w) = usedStats w \<and>
     mode (generateTeamPokemon src net w) = mode w \<and>
     localStorage (generateTeamPokemon src net w) = localStorage w \<and>
     effects (generateTeamPokemon src net w) =
       effects w @ [MarkLoading True, RequestCandidates] @
       (if src = SourceThrows then [ConsoleError] else []) @ [DisplayPokemonNull, MarkLoading False]"
  by (auto simp: generateTeamPokemon_def generateTeamPokemon_resume_def Let_def emit_def
      displayPokemon_null_def)

theorem generate_no_candidate_witness:
  "length (team w_fresh) < TEAM_SIZE \<and>
   currentPokemon (generateTeamPokemon SourceThrows net_up w_fresh) = None \<and>
   team (generateTeamPokemon SourceThrows net_up w_fresh) = [] \<and>
   effects (generateTeamPokemon SourceThrows net_up w_fresh) =
     [MarkLoading True, RequestCandidates, ConsoleError, DisplayPokemonNull, MarkLoading False]"
proof -
  have len: "length (team w_fresh) < TEAM_SIZE" by code_simp
  have "currentPokemon w_fresh = None" "team w_fresh = []" "effects w_fresh = []"
    by (simp_all add: w_fresh_def teamState_init_def)
  then show ?thesis
    using len generate_no_candidate [OF len, of SourceThrows net_up] by simp
qed

text \<open>The sentence that the pending candidate is set to \<open>null\<close> fails as it was worded: in
  the reachable state with a candidate pending, a generation that yields nothing leaves
  that candidate pending.\<close>

theorem generate_no_candidate_keeps_pending:
  "reachable w_candidate \<and> length (team w_candidate) < TEAM_SIZE \<and>
   currentPokemon w_candidate \<noteq> None \<and>
   currentPokemon (generateTeamPokemon (Generated []) net_up w_candidate) \<noteq> None"
proof -
  have "length (team w_candidate) < TEAM_SIZE" by code_simp
  moreover have "currentPokemon w_candidate \<noteq> None" by code_simp
  moreover have "currentPokemon (generateTeamPokemon (Generated []) net_up w_candidate) \<noteq> None"
    by code_simp
  ultimately show ?thesis using reachable_w_candidate by simp
qed

section \<open>Selecting a stat\<close>

text \<open>
  C1: in every reachable state the current score is the sum of the selected stat values
  of the roster, and a successful \<open>selectStat\<close> appends the candidate with the value of
  the chosen stat (0 when the stats lack the key) and adds exactly that value to the
  score; so after successful selections of \<open>v1\<close>, ..., \<open>vN\<close> since the last reset the score
  is their sum.
\<close>

theorem score_is_roster_sum:
  "reachable w \<Longrightarrow>
     currentScore w = sum_list (map committed_value (team w)) \<and>
     (currentPokemon w = Some p \<and> stats p = Some st \<and> stat \<notin> usedStats w \<longrightarrow>
        currentScore (selectStat stat src net w) =
          currentScore w + (case core st stat of None \<Rightarrow> 0 | Some v \<Rightarrow> v) \<and>
        team (selectStat stat src net w) =
          team w @ [p\<lparr> selectedStat := Some stat,
                        selectedStatValue := Some (case core st stat of None \<Rightarrow> 0 | Some v \<Rightarrow> v) \<rparr>])"
proof -
  assume "reachable w"
  then have "team_invariant w" by (rule reachable_invariant)
  then have "currentScore w = sum_list (map committed_value (team w))"
    by (simp add: team_invariant_def roster_sum_def)
  then show ?thesis
    by (auto simp: selectStat_commit)
qed

theorem score_is_roster_sum_witness:
  "reachable w_candidate \<and>
   currentPokemon w_candidate = Some (bulbasaur\<lparr>stats := Some bulbasaur_stats\<rparr>) \<and>
   specialAttack \<notin> usedStats w_candidate \<and>
   currentScore w_one = 65 \<and>
   team w_one = [bulbasaur\<lparr> stats := Some bulbasaur_stats, selectedStat := Some specialAttack,
                            selectedStatValue := Some 65 \<rparr>] \<and>
   reachable w_full \<and> currentScore w_full = sum_list (map committed_value (team w_full)) \<and>
   currentScore w_full = 318"
proof -
  have one: "currentScore w_one = 65 \<and>
     team w_one = [bulbasaur\<lparr> stats := Some bulbasaur_stats, selectedStat := Some specialAttack,
                              selectedStatValue := Some 65 \<rparr>]"
    using score_is_roster_sum [OF reachable_w_candidate,
        of "bulbasaur\<lparr>stats := Some bulbasaur_stats\<rparr>" bulbasaur_stats specialAttack
          "Generated [bulbasaur]" net_up]
    by (simp add: w_candidate_pending w_candidate_state bulbasaur_specialAttack w_one_def)
  have "currentScore w_full = 318" by code_simp
  with one show ?thesis
    using reachable_w_candidate reachable_w_full score_is_roster_sum [OF reachable_w_full]
    by (simp add: w_candidate_pending w_candidate_state)
qed

text \<open>
  C2: in every reachable state no stat key is committed twice across the roster (the
  committed keys are exactly the used stats), and \<open>selectStat\<close> on a key that is already
  used commits nothing: the roster, the current score, the used stats, the high score, the
  pending candidate, the mode and the store are what they were.
\<close>

theorem used_stat_rejected:
  "reachable w \<Longrightarrow>
     distinct (map selectedStat (team w)) \<and>
     set (map selectedStat (team w)) = Some ` usedStats w \<and>
     (stat \<in> usedStats w \<longrightarrow>
        team (selectStat stat src net w) = team w \<and>
        currentScore (selectStat stat src net w) = currentScore w \<and>
        usedStats (selectStat stat src net w) = usedStats w \<and>
        highScore (selectStat stat src net w) = highScore w \<and>
        currentPokemon (selectStat stat src net w) = currentPokemon w \<and>
        mode (selectStat stat src net w) = mode w \<and>
        localStorage (selectStat stat src net w) = localStorage w)"
proof -
  assume "reachable w"
  then have inv: "team_invariant w" by (rule reachable_invariant)
  have "stat \<in> usedStats w \<Longrightarrow>
          selectStat stat src net w = w \<or>
          selectStat stat src net w = emit (Alert ''This stat has already been selected!'') w"
    by (rule selectStat_rejected) simp
  then show ?thesis
    using inv by (auto simp: team_invariant_def emit_def)
qed

theorem used_stat_rejected_witness:
  "reachable w_one \<and> specialAttack \<in> usedStats w_one \<and> currentPokemon w_one \<noteq> None \<and>
   map selectedStat (team w_one) = [Some specialAttack] \<and>
   team (selectStat specialAttack (Generated [bulbasaur]) net_up w_one) = team w_one \<and>
   currentScore (selectStat specialAttack (Generated [bulbasaur]) net_up w_one) = 65"
proof -
  have "specialAttack \<in> usedStats w_one" by code_simp
  moreover have "currentPokemon w_one \<noteq> None" by code_simp
  moreover have "map selectedStat (team w_one) = [Some specialAttack]" by code_simp
  moreover have "currentScore w_one = 65" by code_simp
  ultimately show ?thesis
    using reachable_w_one
      used_stat_rejected [OF reachable_w_one, of specialAttack "Generated [bulbasaur]" net_up]
    by simp
qed



end
